theory Spec2Isabelle
  imports Main
begin

section \<open>Performance.h: a registry of named timers\<close>

text \<open>
  The class \<open>Performance\<close> keeps a \<open>std::deque\<close> of \<open>process\<close> records. The deque is a
  list here, every member function takes the registry and returns the registry it leaves
  behind, and the reading of \<open>std::chrono::high_resolution_clock::now()\<close> that a call
  makes is an argument of that call: an instant is the clock's tick count, in
  nanoseconds.

  The fields \<open>resolution\<close> and \<open>time\<close> are C++ \<open>int\<close>s. They are integers here, and every
  place where the source stores a wider value into an \<open>int\<close> goes through \<open>to_int\<close>,
  the 32-bit two's complement conversion. The widths are those of the usual 64-bit
  platforms: \<open>int\<close> has 32 bits, \<open>size_t\<close> and the \<open>count()\<close> of a duration have 64, and
  the clock ticks in nanoseconds. Instants and durations themselves are unbounded
  integers: the difference of two readings of one clock stays far inside 64 bits.
\<close>

subsection \<open>Data\<close>

definition UNINITIALIZED :: int where
  "UNINITIALIZED = - 1"

record process =
  name :: string
  resolution :: int
  time :: int
  start_time :: int

datatype resolution = seconds | milliseconds | microseconds | nanoseconds

text \<open>The enumerators' values, \<open>static_cast<int>(res)\<close>.\<close>

fun resolution_int :: "resolution \<Rightarrow> int" where
  "resolution_int seconds = 1"
| "resolution_int milliseconds = 2"
| "resolution_int microseconds = 3"
| "resolution_int nanoseconds = 4"

text \<open>
  Both \<open>throw\<close> statements of \<open>stop\<close> raise a \<open>std::runtime_error\<close> carrying the same
  message; the specification calls it InvalidHandle.
\<close>

datatype error = runtime_error string

abbreviation InvalidHandle :: error where
  "InvalidHandle \<equiv> runtime_error ''Error: Invalid Performance Operation''"

definition EXIT_SUCCESS :: int where
  "EXIT_SUCCESS = 0"

subsection \<open>Integer conversions\<close>

text \<open>
  Storing a \<open>size_t\<close> or a 64-bit tick count into an \<open>int\<close> keeps the low 32 bits, read as
  two's complement.
\<close>

definition to_int :: "int \<Rightarrow> int" where
  "to_int v = (v + 2147483648) mod 4294967296 - 2147483648"

text \<open>
  \<open>std::chrono::duration_cast\<close> from nanosecond ticks to a coarser unit divides the
  count by the number of ticks per unit; C++ integer division truncates toward zero.
\<close>

definition duration_cast :: "int \<Rightarrow> int \<Rightarrow> int" where
  "duration_cast ticks d = (if d < 0 then - ((- d) div ticks) else d div ticks)"

subsection \<open>start\<close>

text \<open>
  \<open>process this_step\<close> runs the default member initialisers, which read the clock into
  \<open>start_time\<close>; then name and resolution are assigned and the record is appended. The
  returned position is the deque's size before the append, converted to \<open>int\<close>.
\<close>

definition start :: "process list \<Rightarrow> int \<Rightarrow> string \<Rightarrow> resolution \<Rightarrow> int \<times> process list" where
  "start processes now process_name res =
     (let step_position = to_int (int (length processes));
          this_step = \<lparr>name = [], resolution = UNINITIALIZED, time = UNINITIALIZED,
                       start_time = now\<rparr>;
          this_step = this_step\<lparr>name := process_name\<rparr>;
          this_step = this_step\<lparr>resolution := resolution_int res\<rparr>
      in (step_position, processes @ [this_step]))"

subsection \<open>stop\<close>

definition set_time :: "process list \<Rightarrow> nat \<Rightarrow> int \<Rightarrow> process list" where
  "set_time processes i v = processes[i := (processes ! i)\<lparr>time := v\<rparr>]"

text \<open>
  \<open>processes.at(process_id)\<close> converts the \<open>int\<close> to the unsigned \<open>size_type\<close>: a negative
  handle becomes a value above every possible size, so \<open>at\<close> throws for a negative handle
  as it does for one that is too large. The exception is caught and \<open>runtime_error\<close>
  thrown in its place; nothing has been written at that point.

  On a handle in range the \<open>switch\<close> stores the converted duration into the record's
  \<open>time\<close> (no case matches a resolution outside 1..4, and nothing is stored), and only
  then is the stored value compared with \<open>UNINITIALIZED\<close>. The registry after a
  \<open>throw\<close> is therefore part of the result.
\<close>

definition stop :: "process list \<Rightarrow> int \<Rightarrow> int \<Rightarrow> (error + int) \<times> process list" where
  "stop processes now process_id =
     (if process_id < 0 \<or> int (length processes) \<le> process_id
      then (Inl InvalidHandle, processes)
      else
        let i = nat process_id;
            d = now - start_time (processes ! i);
            r = resolution (processes ! i);
            processes' =
              (if r = 1 then set_time processes i (to_int (duration_cast 1000000000 d))
               else if r = 2 then set_time processes i (to_int (duration_cast 1000000 d))
               else if r = 3 then set_time processes i (to_int (duration_cast 1000 d))
               else if r = 4 then set_time processes i (to_int d)
               else processes)
        in if UNINITIALIZED < time (processes' ! i)
           then (Inr EXIT_SUCCESS, processes')
           else (Inl InvalidHandle, processes'))"

subsection \<open>show_results\<close>

text \<open>
  \<open>format_integer_thousand_separator\<close> formats with the locale of the environment,
  \<open>std::locale("")\<close>, which the source does not fix: the formatter is the argument
  \<open>fmt\<close>, a total function (a locale that cannot be constructed is outside the model).
  \<open>std::setw\<close> pads on the left with blanks up to the width; a width that is not
  larger than the text, or negative, pads nothing. Its argument is an \<open>int\<close>, computed in
  \<open>size_t\<close> arithmetic.
\<close>

definition setw :: "int \<Rightarrow> string \<Rightarrow> string" where
  "setw w s = replicate (nat (w - int (length s))) (CHR '' '') @ s"

definition endl :: string where
  "endl = [CHR 0x0A]"

definition table_seperator :: string where
  "table_seperator = ''---------------------------------------------------------------------------''"

definition suffix_string :: "process \<Rightarrow> string" where
  "suffix_string step =
     (let r = resolution step in
      if r = 1 then ''s''
      else if r = 2 then ''ms''
      else if r = 3 then ''microseconds''
      else if r = 4 then ''ns''
      else [])"

text \<open>The text of the right-hand column of one row, \<open>runtime_string\<close> in the source.\<close>

definition runtime_string :: "(int \<Rightarrow> string) \<Rightarrow> process \<Rightarrow> string" where
  "runtime_string fmt step =
     (if time step = - 1 then ''STILL RUNNING'' @ '' '' @ []
      else fmt (time step) @ '' '' @ suffix_string step)"

definition row :: "(int \<Rightarrow> string) \<Rightarrow> process \<Rightarrow> string" where
  "row fmt step =
     name step
     @ setw (to_int (int (length table_seperator) - int (length (name step))))
         (runtime_string fmt step)
     @ endl"

definition header :: "string \<Rightarrow> string" where
  "header table_title =
     endl @ table_seperator @ endl
     @ setw (to_int (int (length table_seperator div 2 + length table_title div 2))) table_title
     @ endl @ table_seperator @ endl @ endl"

definition footer :: string where
  "footer = endl @ table_seperator @ endl @ endl"

text \<open>
  The function returns what it writes to \<open>std::cout\<close> together with the registry, which
  the loop only reads (\<open>for (auto step : processes)\<close> copies each record).
\<close>

definition show_results :: "(int \<Rightarrow> string) \<Rightarrow> process list \<Rightarrow> string \<Rightarrow> string \<times> process list" where
  "show_results fmt processes table_title =
     (header table_title
      @ (if length processes = 0 then [CHR 0x09] @ ''No Events Tracked'' @ endl
         else concat (map (row fmt) processes))
      @ footer,
      processes)"

subsection \<open>reset_results\<close>

definition reset_results :: "process list \<Rightarrow> process list" where
  "reset_results processes = []"

subsection \<open>Sequences of start calls\<close>

text \<open>
  A run of \<open>start\<close> calls, each with the clock reading it sees, its name and its unit;
  the result lists the handles in the order they were returned.
\<close>

fun start_all :: "process list \<Rightarrow> (int \<times> string \<times> resolution) list \<Rightarrow> int list \<times> process list" where
  "start_all processes [] = ([], processes)"
| "start_all processes ((now, process_name, res) # calls) =
     (case start processes now process_name res of
        (h, processes') \<Rightarrow>
          (case start_all processes' calls of
             (hs, processes'') \<Rightarrow> (h # hs, processes'')))"

section \<open>Basic facts\<close>

lemmas eval_defs = start_def stop_def set_time_def to_int_def duration_cast_def
  UNINITIALIZED_def EXIT_SUCCESS_def Let_def

lemma to_int_id: "- 2147483648 \<le> v \<Longrightarrow> v < 2147483648 \<Longrightarrow> to_int v = v"
  by (simp add: to_int_def)

lemma fst_start: "fst (start ps now nm res) = to_int (int (length ps))"
  by (simp add: start_def Let_def)

lemma snd_start:
  "snd (start ps now nm res) =
     ps @ [\<lparr>name = nm, resolution = resolution_int res, time = - 1, start_time = now\<rparr>]"
  by (simp add: start_def Let_def UNINITIALIZED_def)

lemma length_start: "length (snd (start ps now nm res)) = Suc (length ps)"
  by (simp add: snd_start)

lemma start_all_handles:
  "fst (start_all ps cs) = map (\<lambda>k. to_int (int k)) [length ps..<length ps + length cs]"
proof (induction cs arbitrary: ps)
  case Nil
  show ?case by simp
next
  case (Cons c cs)
  obtain now nm res where c: "c = (now, nm, res)" by (cases c)
  have "fst (start_all ps (c # cs)) =
      fst (start ps now nm res) # fst (start_all (snd (start ps now nm res)) cs)"
    by (simp add: c split: prod.splits)
  also have "\<dots> = to_int (int (length ps)) #
      map (\<lambda>k. to_int (int k)) [Suc (length ps)..<Suc (length ps) + length cs]"
    by (simp add: Cons.IH fst_start length_start)
  also have "\<dots> = map (\<lambda>k. to_int (int k)) [length ps..<length ps + length (c # cs)]"
  proof -
    have "[length ps..<length ps + length (c # cs)] =
        length ps # [Suc (length ps)..<Suc (length ps) + length cs]"
      using upt_conv_Cons [of "length ps" "length ps + length (c # cs)"] by simp
    then show ?thesis by simp
  qed
  finally show ?case .
qed

lemma length_set_time: "length (set_time ps i v) = length ps"
  by (simp add: set_time_def)

lemma length_stop: "length (snd (stop ps now h)) = length ps"
  by (simp add: stop_def Let_def length_set_time)

lemma stop_out_of_range:
  "h < 0 \<or> int (length ps) \<le> h \<Longrightarrow> stop ps now h = (Inl InvalidHandle, ps)"
  by (simp add: stop_def)

lemma stop_error: "fst (stop ps now h) = Inl e \<Longrightarrow> e = InvalidHandle"
  by (auto simp add: stop_def Let_def split: if_splits)

lemma stop_success_in_range:
  "fst (stop ps now h) = Inr r \<Longrightarrow> 0 \<le> h \<and> nat h < length ps"
  by (auto simp add: stop_def Let_def split: if_splits)

lemma stop_success_time:
  "fst (stop ps now h) = Inr r \<Longrightarrow> 0 \<le> time (snd (stop ps now h) ! nat h)"
  by (auto simp add: stop_def Let_def UNINITIALIZED_def split: if_splits)

text \<open>Whatever \<open>stop\<close> returns, the only field it can have written is \<open>time\<close> at the handle.\<close>

lemma stop_frame:
  "snd (stop ps now h) =
     ps[nat h := (ps ! nat h)\<lparr>time := time (snd (stop ps now h) ! nat h)\<rparr>]"
  by (auto simp add: stop_def Let_def set_time_def split: if_splits)

lemma stop_other:
  assumes "i < length ps" and "int i \<noteq> h"
  shows "snd (stop ps now h) ! i = ps ! i"
proof (cases "0 \<le> h")
  case True
  then have "nat h \<noteq> i" using assms(2) by auto
  then show ?thesis by (subst stop_frame) simp
next
  case False
  then show ?thesis by (simp add: stop_out_of_range)
qed

lemma stop_fields:
  assumes "i < length ps"
  shows "name (snd (stop ps now h) ! i) = name (ps ! i) \<and>
         resolution (snd (stop ps now h) ! i) = resolution (ps ! i) \<and>
         start_time (snd (stop ps now h) ! i) = start_time (ps ! i)"
  using assms by (auto simp add: stop_def Let_def set_time_def nth_list_update)

text \<open>
  The number of clock ticks in one unit of a record's resolution, and what \<open>stop\<close>
  stores when the converted duration fits an \<open>int\<close>.
\<close>

lemma stop_stores_duration:
  assumes "0 \<le> h" and "nat h < length ps"
    and "(r, ticks) \<in> {(1, 1000000000), (2, 1000000), (3, 1000), (4, 1)}"
    and "resolution (ps ! nat h) = r"
    and "0 \<le> duration_cast ticks (now - start_time (ps ! nat h))"
    and "duration_cast ticks (now - start_time (ps ! nat h)) < 2147483648"
  shows "fst (stop ps now h) = Inr EXIT_SUCCESS \<and>
         time (snd (stop ps now h) ! nat h) = duration_cast ticks (now - start_time (ps ! nat h))"
proof -
  let ?d = "now - start_time (ps ! nat h)"
  have id: "to_int (duration_cast ticks ?d) = duration_cast ticks ?d"
    using assms(5,6) by (intro to_int_id) auto
  have one: "duration_cast 1 ?d = ?d"
    by (simp add: duration_cast_def)
  have range: "\<not> (h < 0 \<or> int (length ps) \<le> h)"
    using assms(1,2) by auto
  from assms(3) consider "r = 1" "ticks = 1000000000" | "r = 2" "ticks = 1000000"
    | "r = 3" "ticks = 1000" | "r = 4" "ticks = 1"
    by auto
  then show ?thesis
  proof cases
    case 1
    then show ?thesis
      using id assms(2,4,5) range
      by (simp add: stop_def Let_def set_time_def UNINITIALIZED_def)
  next
    case 2
    then show ?thesis
      using id assms(2,4,5) range
      by (simp add: stop_def Let_def set_time_def UNINITIALIZED_def)
  next
    case 3
    then show ?thesis
      using id assms(2,4,5) range
      by (simp add: stop_def Let_def set_time_def UNINITIALIZED_def)
  next
    case 4
    then show ?thesis
      using id one assms(2,4,5) range
      by (simp add: stop_def Let_def set_time_def UNINITIALIZED_def)
  qed
qed

lemma duration_cast_mono:
  assumes "0 < ticks" and "0 \<le> d1" and "d1 \<le> d2"
  shows "0 \<le> duration_cast ticks d1 \<and> duration_cast ticks d1 \<le> duration_cast ticks d2"
  using assms by (simp add: duration_cast_def zdiv_mono1 pos_imp_zdiv_nonneg_iff)

text \<open>
  Stopping a record again at a later instant records a value that is at least the earlier
  one, as long as the later duration, in the record's unit, still fits an \<open>int\<close>.
\<close>

lemma restop_monotone_in_range:
  assumes h: "0 \<le> h" "nat h < length ps"
    and unit: "(r, ticks) \<in> {(1, 1000000000), (2, 1000000), (3, 1000), (4, 1)}"
    and res: "resolution (ps ! nat h) = r"
    and clock: "start_time (ps ! nat h) \<le> now1" "now1 \<le> now2"
    and fits: "duration_cast ticks (now2 - start_time (ps ! nat h)) < 2147483648"
  shows "fst (stop ps now1 h) = Inr EXIT_SUCCESS \<and>
         fst (stop (snd (stop ps now1 h)) now2 h) = Inr EXIT_SUCCESS \<and>
         time (snd (stop ps now1 h) ! nat h)
           \<le> time (snd (stop (snd (stop ps now1 h)) now2 h) ! nat h)"
proof -
  let ?st = "start_time (ps ! nat h)"
  let ?ps' = "snd (stop ps now1 h)"
  have pos: "0 < ticks" using unit by auto
  have m: "0 \<le> duration_cast ticks (now1 - ?st) \<and>
      duration_cast ticks (now1 - ?st) \<le> duration_cast ticks (now2 - ?st)"
    using clock by (intro duration_cast_mono pos) auto
  have first: "fst (stop ps now1 h) = Inr EXIT_SUCCESS \<and>
      time (?ps' ! nat h) = duration_cast ticks (now1 - ?st)"
    using m fits by (intro stop_stores_duration [OF h unit res]) auto
  have same: "resolution (?ps' ! nat h) = r" "start_time (?ps' ! nat h) = ?st"
    using stop_fields [OF h(2), of now1 h] res by auto
  have len: "nat h < length ?ps'"
    using h(2) by (simp add: length_stop)
  have second: "fst (stop ?ps' now2 h) = Inr EXIT_SUCCESS \<and>
      time (snd (stop ?ps' now2 h) ! nat h) = duration_cast ticks (now2 - ?st)"
    using stop_stores_duration [OF h(1) len unit same(1), of now2] m fits
    by (simp add: same(2))
  show ?thesis
    using first second m by simp
qed

lemma length_table_seperator: "length table_seperator = 75"
  by (simp add: table_seperator_def)

text \<open>
  A row's right-hand column is the text \<open>STILL RUNNING\<close> exactly when the record's \<open>time\<close>
  is the sentinel: every other row ends in its unit's suffix.
\<close>

lemma runtime_string_still_running:
  assumes "resolution step \<in> {1, 2, 3, 4}"
  shows "runtime_string fmt step = ''STILL RUNNING '' \<longleftrightarrow> time step = - 1"
proof
  assume eq: "runtime_string fmt step = ''STILL RUNNING ''"
  show "time step = - 1"
  proof (rule ccontr)
    assume "time step \<noteq> - 1"
    then have "last (runtime_string fmt step) = CHR ''s''"
      using assms by (auto simp add: runtime_string_def suffix_string_def)
    then show False by (simp add: eq)
  qed
next
  assume "time step = - 1"
  then show "runtime_string fmt step = ''STILL RUNNING ''"
    by (simp add: runtime_string_def)
qed

section \<open>Handles returned by start\<close>

text \<open>
  C1 (as stated): the N-th \<open>start\<close> call since the last reset returns handle N, for every
  sequence of calls. The handle is an \<open>int\<close>: the call numbered 2147483648 finds
  2147483648 records in the registry and returns that count converted to \<open>int\<close>, which
  is negative.
\<close>

theorem start_handles_counterexample:
  "fst (start_all (reset_results []) (replicate 2147483649 (0, ''UNKNOWN'', milliseconds)))
     ! 2147483648 = - 2147483648"
  by (simp add: start_all_handles reset_results_def to_int_def)

text \<open>
  C1 (amended): as long as the registry ends with at most 2147483648 records, a run of
  \<open>start\<close> calls on a registry of N records returns N, N + 1, ... in order; after a reset
  that is 0, 1, 2, ... The handles are non-negative and strictly increasing.
\<close>

theorem start_handles:
  assumes "length ps + length cs \<le> 2147483648"
  shows "fst (start_all ps cs) = map int [length ps..<length ps + length cs] \<and>
         fst (start_all (reset_results ps) cs) = map int [0..<length cs] \<and>
         (\<forall>k<length cs. fst (start_all (reset_results ps) cs) ! k = int k \<and>
                        0 \<le> fst (start_all (reset_results ps) cs) ! k) \<and>
         (\<forall>j k. j < k \<and> k < length cs \<longrightarrow>
                fst (start_all (reset_results ps) cs) ! j < fst (start_all (reset_results ps) cs) ! k)"
proof -
  have "map (\<lambda>k. to_int (int k)) [length ps..<length ps + length cs]
      = map int [length ps..<length ps + length cs]"
    using assms by (intro map_cong refl to_int_id) auto
  then have eq: "fst (start_all ps cs) = map int [length ps..<length ps + length cs]"
    by (simp add: start_all_handles)
  have "map (\<lambda>k. to_int (int k)) [0..<length cs] = map int [0..<length cs]"
    using assms by (intro map_cong refl to_int_id) auto
  then have eq0: "fst (start_all (reset_results ps) cs) = map int [0..<length cs]"
    by (simp add: start_all_handles reset_results_def)
  show ?thesis
    unfolding eq0 using eq by simp
qed

theorem start_handles_witness:
  "fst (start_all (reset_results [\<lparr>name = ''old'', resolution = 2, time = 3, start_time = 0\<rparr>])
        [(0, ''load'', milliseconds), (5, ''parse'', microseconds)]) = [0, 1]"
  using start_handles [of "[\<lparr>name = ''old'', resolution = 2, time = 3, start_time = 0\<rparr>]"
      "[(0, ''load'', milliseconds), (5, ''parse'', microseconds)]"]
  by (simp add: upt_conv_Cons)

section \<open>Handles that stop rejects\<close>

text \<open>
  C2: on a registry of N records, \<open>stop(-1)\<close> fails with InvalidHandle, and so does
  \<open>stop(H)\<close> for every H that is negative or at least N; such a call never succeeds, and
  it leaves the registry as it was.
\<close>

theorem stop_invalid_handle:
  assumes "h < 0 \<or> int (length ps) \<le> h"
  shows "fst (stop ps now (- 1)) = Inl InvalidHandle \<and>
         fst (stop ps now h) = Inl InvalidHandle \<and>
         (\<forall>r. fst (stop ps now h) \<noteq> Inr r) \<and>
         snd (stop ps now h) = ps"
  using assms by (simp add: stop_out_of_range)

theorem stop_invalid_handle_witness:
  "fst (stop (snd (start [] 0 ''load'' milliseconds)) 7000000 (- 1)) = Inl InvalidHandle \<and>
   fst (stop (snd (start [] 0 ''load'' milliseconds)) 7000000 1) = Inl InvalidHandle"
proof -
  have h: "1 < 0 \<or> int (length (snd (start [] 0 ''load'' milliseconds))) \<le> 1"
    by (simp add: snd_start)
  show ?thesis
    using stop_invalid_handle [OF h, of 7000000] by simp
qed

section \<open>The elapsed field over time\<close>

text \<open>
  C3 (as stated): a record's elapsed field changes at most once and never again once it is
  set. A timer in milliseconds started at instant 0 and stopped 5 ms and again 9 ms later:
  both calls succeed, and the field goes from the sentinel to 5 and then to 9.
\<close>

theorem elapsed_once_counterexample:
  "time (snd (start [] 0 ''load'' milliseconds) ! 0) = - 1 \<and>
   fst (stop (snd (start [] 0 ''load'' milliseconds)) 5000000 0) = Inr EXIT_SUCCESS \<and>
   time (snd (stop (snd (start [] 0 ''load'' milliseconds)) 5000000 0) ! 0) = 5 \<and>
   fst (stop (snd (stop (snd (start [] 0 ''load'' milliseconds)) 5000000 0)) 9000000 0)
     = Inr EXIT_SUCCESS \<and>
   time (snd (stop (snd (stop (snd (start [] 0 ''load'' milliseconds)) 5000000 0)) 9000000 0) ! 0)
     = 9"
  by (simp add: eval_defs)

text \<open>
  C3 (amended): a record's elapsed field is left alone by \<open>start\<close>, by the report and by
  \<open>stop\<close> on any other handle; every successful \<open>stop\<close> on the record's own handle leaves
  it a non-negative integer, and a later \<open>stop\<close> may overwrite it.
\<close>

theorem elapsed_changes:
  assumes "i < length ps"
  shows "time (snd (start ps now nm res) ! i) = time (ps ! i) \<and>
         time (snd (show_results fmt ps title) ! i) = time (ps ! i) \<and>
         (h \<noteq> int i \<longrightarrow> time (snd (stop ps now h) ! i) = time (ps ! i)) \<and>
         (fst (stop ps now (int i)) = Inr r \<longrightarrow> 0 \<le> time (snd (stop ps now (int i)) ! i))"
proof -
  have "time (snd (start ps now nm res) ! i) = time (ps ! i)"
    using assms by (simp add: snd_start nth_append)
  moreover have "time (snd (show_results fmt ps title) ! i) = time (ps ! i)"
    by (simp add: show_results_def)
  moreover have "h \<noteq> int i \<longrightarrow> time (snd (stop ps now h) ! i) = time (ps ! i)"
    using stop_other [OF assms, of h now] by auto
  moreover have "fst (stop ps now (int i)) = Inr r \<longrightarrow>
      0 \<le> time (snd (stop ps now (int i)) ! i)"
    using stop_success_time [of ps now "int i" r] by simp
  ultimately show ?thesis by blast
qed

theorem elapsed_changes_witness:
  "time (snd (start [\<lparr>name = ''load'', resolution = 2, time = - 1, start_time = 0\<rparr>,
                     \<lparr>name = ''parse'', resolution = 3, time = 4, start_time = 10\<rparr>]
               5000000 ''next'' seconds) ! 0) = - 1 \<and>
   time (snd (stop [\<lparr>name = ''load'', resolution = 2, time = - 1, start_time = 0\<rparr>,
                    \<lparr>name = ''parse'', resolution = 3, time = 4, start_time = 10\<rparr>]
               5000000 1) ! 0) = - 1 \<and>
   fst (stop [\<lparr>name = ''load'', resolution = 2, time = - 1, start_time = 0\<rparr>,
              \<lparr>name = ''parse'', resolution = 3, time = 4, start_time = 10\<rparr>]
          5000000 0) = Inr EXIT_SUCCESS \<and>
   0 \<le> time (snd (stop [\<lparr>name = ''load'', resolution = 2, time = - 1, start_time = 0\<rparr>,
                         \<lparr>name = ''parse'', resolution = 3, time = 4, start_time = 10\<rparr>]
                     5000000 0) ! 0)"
proof -
  let ?ps = "[\<lparr>name = ''load'', resolution = 2, time = - 1, start_time = 0\<rparr>,
              \<lparr>name = ''parse'', resolution = 3, time = 4, start_time = 10\<rparr>]"
  have i: "0 < length ?ps" by simp
  have ok: "fst (stop ?ps 5000000 0) = Inr EXIT_SUCCESS"
    by (simp add: eval_defs)
  show ?thesis
    using elapsed_changes [OF i, of 5000000 "''next''" seconds "\<lambda>v. ''5''" "''Timing''" 1 EXIT_SUCCESS] ok
    by simp
qed

section \<open>What a failing stop leaves behind\<close>

text \<open>
  C4: whenever \<open>stop\<close> fails, the registry is exactly what it was before the call. On
  an out-of-range handle that is so (\<open>stop_out_of_range\<close>). On a handle in range the
  source stores the converted duration into the record and compares the stored value
  with the sentinel only afterwards, so the call that fails on that comparison has
  already overwritten the elapsed field. A timer in nanoseconds stopped three seconds
  after its start (the count does not fit an \<open>int\<close> and is stored as -1294967296), and a
  timer in milliseconds whose clock reading lies 10 ms before its start instant (-10 is
  stored): both calls fail, and both leave a changed record behind.
\<close>

theorem stop_failure_mutates:
  "stop (snd (start [] 0 ''t'' nanoseconds)) 3000000000 0
     = (Inl InvalidHandle,
        [\<lparr>name = ''t'', resolution = 4, time = - 1294967296, start_time = 0\<rparr>]) \<and>
   snd (start [] 0 ''t'' nanoseconds)
     = [\<lparr>name = ''t'', resolution = 4, time = - 1, start_time = 0\<rparr>] \<and>
   snd (stop (snd (start [] 0 ''t'' nanoseconds)) 3000000000 0)
     \<noteq> snd (start [] 0 ''t'' nanoseconds) \<and>
   stop (snd (start [] 10000000 ''t'' milliseconds)) 0 0
     = (Inl InvalidHandle,
        [\<lparr>name = ''t'', resolution = 2, time = - 10, start_time = 10000000\<rparr>]) \<and>
   snd (stop (snd (start [] 10000000 ''t'' milliseconds)) 0 0)
     \<noteq> snd (start [] 10000000 ''t'' milliseconds)"
  by (simp add: eval_defs)

section \<open>Stopping twice\<close>

text \<open>
  C5: if \<open>stop(H)\<close> succeeds at instant T1 and again at a later instant T2, the second
  recorded elapsed value is at least the first. The source stores the 64-bit tick count
  of the duration into the \<open>int\<close> field \<open>time\<close>. A timer in nanoseconds started at
  instant 0 and stopped after two seconds and again after five: both calls succeed, the
  first records 2000000000 and the second 705032704.
\<close>

theorem restop_elapsed_decreases:
  "fst (stop (snd (start [] 0 ''t'' nanoseconds)) 2000000000 0) = Inr EXIT_SUCCESS \<and>
   time (snd (stop (snd (start [] 0 ''t'' nanoseconds)) 2000000000 0) ! 0) = 2000000000 \<and>
   fst (stop (snd (stop (snd (start [] 0 ''t'' nanoseconds)) 2000000000 0)) 5000000000 0)
     = Inr EXIT_SUCCESS \<and>
   time (snd (stop (snd (stop (snd (start [] 0 ''t'' nanoseconds)) 2000000000 0)) 5000000000 0) ! 0)
     = 705032704"
  by (simp add: eval_defs)

section \<open>STILL RUNNING in the report\<close>

text \<open>
  C6: a record's row reads STILL RUNNING in every report until \<open>stop\<close> has succeeded on
  its handle, and never again afterwards. With a timer in nanoseconds started at instant
  0: a first \<open>stop\<close> three seconds later fails, and the row then shows a number although
  no \<open>stop\<close> has succeeded; and a \<open>stop\<close> that succeeds after one second, followed by one
  4294967295 ns after the start, which fails and stores the sentinel, brings the row back
  to STILL RUNNING. The clock only moves forward in both runs.
\<close>

theorem still_running_row:
  "row fmt (snd (start [] 0 ''t'' nanoseconds) ! 0)
     = ''t'' @ replicate 60 (CHR '' '') @ ''STILL RUNNING '' @ endl \<and>
   fst (stop (snd (start [] 0 ''t'' nanoseconds)) 3000000000 0) = Inl InvalidHandle \<and>
   runtime_string fmt (snd (stop (snd (start [] 0 ''t'' nanoseconds)) 3000000000 0) ! 0)
     = fmt (- 1294967296) @ '' ns'' \<and>
   runtime_string fmt (snd (stop (snd (start [] 0 ''t'' nanoseconds)) 3000000000 0) ! 0)
     \<noteq> ''STILL RUNNING '' \<and>
   fst (stop (snd (start [] 0 ''t'' nanoseconds)) 1000000000 0) = Inr EXIT_SUCCESS \<and>
   runtime_string fmt (snd (stop (snd (start [] 0 ''t'' nanoseconds)) 1000000000 0) ! 0)
     = fmt 1000000000 @ '' ns'' \<and>
   fst (stop (snd (stop (snd (start [] 0 ''t'' nanoseconds)) 1000000000 0)) 4294967295 0)
     = Inl InvalidHandle \<and>
   fst (show_results fmt
          (snd (stop (snd (stop (snd (start [] 0 ''t'' nanoseconds)) 1000000000 0)) 4294967295 0))
          ''Timing'')
     = header ''Timing'' @ ''t'' @ replicate 60 (CHR '' '') @ ''STILL RUNNING '' @ endl @ footer"
proof -
  let ?ps = "snd (start [] 0 ''t'' nanoseconds)"
  have ps: "?ps = [\<lparr>name = ''t'', resolution = 4, time = - 1, start_time = 0\<rparr>]"
    by (simp add: snd_start)
  have s3: "stop [\<lparr>name = ''t'', resolution = 4, time = - 1, start_time = 0\<rparr>] 3000000000 0 =
      (Inl InvalidHandle, [\<lparr>name = ''t'', resolution = 4, time = - 1294967296, start_time = 0\<rparr>])"
    by (simp add: eval_defs)
  have s1: "stop [\<lparr>name = ''t'', resolution = 4, time = - 1, start_time = 0\<rparr>] 1000000000 0 =
      (Inr EXIT_SUCCESS, [\<lparr>name = ''t'', resolution = 4, time = 1000000000, start_time = 0\<rparr>])"
    by (simp add: eval_defs)
  have s4: "stop [\<lparr>name = ''t'', resolution = 4, time = 1000000000, start_time = 0\<rparr>] 4294967295 0 =
      (Inl InvalidHandle, [\<lparr>name = ''t'', resolution = 4, time = - 1, start_time = 0\<rparr>])"
    by (simp add: eval_defs)
  have running: "row fmt \<lparr>name = ''t'', resolution = 4, time = - 1, start_time = 0\<rparr>
      = ''t'' @ replicate 60 (CHR '' '') @ ''STILL RUNNING '' @ endl"
    by (simp add: row_def runtime_string_def setw_def to_int_def table_seperator_def)
  have shown: "runtime_string fmt \<lparr>name = ''t'', resolution = 4, time = - 1294967296, start_time = 0\<rparr>
      = fmt (- 1294967296) @ '' ns''"
    by (simp add: runtime_string_def suffix_string_def)
  have differs: "fmt (- 1294967296) @ '' ns'' \<noteq> ''STILL RUNNING ''"
  proof
    assume "fmt (- 1294967296) @ '' ns'' = ''STILL RUNNING ''"
    then have "last (fmt (- 1294967296) @ '' ns'') = last ''STILL RUNNING ''"
      by (rule arg_cong)
    then show False by simp
  qed
  have stopped: "runtime_string fmt \<lparr>name = ''t'', resolution = 4, time = 1000000000, start_time = 0\<rparr>
      = fmt 1000000000 @ '' ns''"
    by (simp add: runtime_string_def suffix_string_def)
  have report: "fst (show_results fmt
      [\<lparr>name = ''t'', resolution = 4, time = - 1, start_time = 0\<rparr>] ''Timing'')
      = header ''Timing'' @ ''t'' @ replicate 60 (CHR '' '') @ ''STILL RUNNING '' @ endl @ footer"
    by (simp add: show_results_def running)
  show ?thesis
    unfolding ps by (simp add: s3 s1 s4 running shown differs stopped report)
qed

section \<open>Reset\<close>

text \<open>
  C7: after a reset the registry holds no record, the report consists of the table
  header, the line "No Events Tracked" and the table footer, and \<open>stop\<close> fails with
  InvalidHandle on every handle.
\<close>

theorem reset_clears:
  "length (reset_results ps) = 0 \<and>
   fst (show_results fmt (reset_results ps) title)
     = header title @ [CHR 0x09] @ ''No Events Tracked'' @ endl @ footer \<and>
   stop (reset_results ps) now h = (Inl InvalidHandle, reset_results ps)"
proof -
  have "h < 0 \<or> int (length (reset_results ps)) \<le> h"
    by (auto simp add: reset_results_def)
  then have "stop (reset_results ps) now h = (Inl InvalidHandle, reset_results ps)"
    by (rule stop_out_of_range)
  then show ?thesis
    by (simp add: reset_results_def show_results_def)
qed

section \<open>The report reads only\<close>

text \<open>
  C8: the report leaves the registry as it found it (the same records, with the same
  name, unit, elapsed value and start instant, in the same order), and a second report
  with the same title on the registry it left writes the same text.
\<close>

theorem show_results_pure:
  "snd (show_results fmt ps title) = ps \<and>
   fst (show_results fmt (snd (show_results fmt ps title)) title)
     = fst (show_results fmt ps title)"
  by (simp add: show_results_def)

section \<open>The value that stop stores\<close>

text \<open>
  C9: after a successful \<open>stop\<close> the stored elapsed value is the duration since the start
  instant, converted to the record's unit by truncating division. The field is an \<open>int\<close>
  and receives a 64-bit count. A timer in nanoseconds started at instant 0 and stopped
  five seconds later: the call succeeds, the duration in the record's unit is 5000000000,
  and the record holds 705032704.
\<close>

theorem stop_stores_wrapped:
  "fst (stop (snd (start [] 0 ''t'' nanoseconds)) 5000000000 0) = Inr EXIT_SUCCESS \<and>
   duration_cast 1 (5000000000 - start_time (snd (start [] 0 ''t'' nanoseconds) ! 0)) = 5000000000 \<and>
   time (snd (stop (snd (start [] 0 ''t'' nanoseconds)) 5000000000 0) ! 0) = 705032704"
  by (simp add: eval_defs)

section \<open>What a successful stop changes\<close>

text \<open>
  C10: a successful \<open>stop(H)\<close> changes nothing but the \<open>time\<close> field of the record at
  index H: the registry afterwards is the one before with that field replaced, so the
  number and order of the records, every other record, and the name, unit and start
  instant of the record at H are as before.
\<close>

theorem stop_success_frame:
  assumes "fst (stop ps now h) = Inr r"
  shows "0 \<le> h \<and> nat h < length ps \<and>
         snd (stop ps now h) =
           ps[nat h := (ps ! nat h)\<lparr>time := time (snd (stop ps now h) ! nat h)\<rparr>] \<and>
         length (snd (stop ps now h)) = length ps \<and>
         (\<forall>i<length ps.
            name (snd (stop ps now h) ! i) = name (ps ! i) \<and>
            resolution (snd (stop ps now h) ! i) = resolution (ps ! i) \<and>
            start_time (snd (stop ps now h) ! i) = start_time (ps ! i) \<and>
            (int i \<noteq> h \<longrightarrow> snd (stop ps now h) ! i = ps ! i))"
proof -
  have "0 \<le> h \<and> nat h < length ps"
    using assms by (rule stop_success_in_range)
  moreover have "snd (stop ps now h) =
      ps[nat h := (ps ! nat h)\<lparr>time := time (snd (stop ps now h) ! nat h)\<rparr>]"
    by (rule stop_frame)
  moreover have "length (snd (stop ps now h)) = length ps"
    by (rule length_stop)
  moreover have "\<forall>i<length ps.
      name (snd (stop ps now h) ! i) = name (ps ! i) \<and>
      resolution (snd (stop ps now h) ! i) = resolution (ps ! i) \<and>
      start_time (snd (stop ps now h) ! i) = start_time (ps ! i) \<and>
      (int i \<noteq> h \<longrightarrow> snd (stop ps now h) ! i = ps ! i)"
    using stop_fields [of _ ps now h] stop_other [of _ ps h now] by blast
  ultimately show ?thesis by blast
qed

theorem stop_success_frame_witness:
  "fst (stop [\<lparr>name = ''load'', resolution = 2, time = - 1, start_time = 0\<rparr>,
              \<lparr>name = ''parse'', resolution = 3, time = - 1, start_time = 10\<rparr>]
          5000000 0) = Inr EXIT_SUCCESS \<and>
   snd (stop [\<lparr>name = ''load'', resolution = 2, time = - 1, start_time = 0\<rparr>,
              \<lparr>name = ''parse'', resolution = 3, time = - 1, start_time = 10\<rparr>]
          5000000 0)
     = [\<lparr>name = ''load'', resolution = 2, time = 5, start_time = 0\<rparr>,
        \<lparr>name = ''parse'', resolution = 3, time = - 1, start_time = 10\<rparr>]"
proof -
  let ?ps = "[\<lparr>name = ''load'', resolution = 2, time = - 1, start_time = 0\<rparr>,
              \<lparr>name = ''parse'', resolution = 3, time = - 1, start_time = 10\<rparr>]"
  have ok: "fst (stop ?ps 5000000 0) = Inr EXIT_SUCCESS"
    by (simp add: eval_defs)
  have t: "time (snd (stop ?ps 5000000 0) ! 0) = 5"
    by (simp add: eval_defs)
  show ?thesis
    using stop_success_frame [OF ok] ok t by simp
qed


end
